theory Spec2Isabelle
  imports Main "HOL-Library.Sublist" "HOL-Library.Char_ord" "HOL-Library.List_Lexorder"
begin

section \<open>JavaScript values and strings\<close>

text \<open>
  The hooks are JavaScript. A value handed to a hook as a task description is a string
  or some other primitive (the command-line parser of \<^verbatim>\<open>index.js\<close> stores \<^verbatim>\<open>true\<close>
  for an option given without a value). A string is a list of characters; a \<^typ>\<open>char\<close>
  stands for the code unit of the same number, U+0000 to U+00FF.
\<close>

datatype jsval = JUndefined | JNull | JBoolean bool | JNumber int | JString string

text \<open>\<^verbatim>\<open>typeof v === 'string'\<close>\<close>

fun is_string :: "jsval \<Rightarrow> bool" where
  "is_string (JString s) = True"
| "is_string _ = False"

text \<open>Calling a string method on a value that has none raises a \<^verbatim>\<open>TypeError\<close>.\<close>

datatype error = TypeError

text \<open>
  \<^verbatim>\<open>String.prototype.toLowerCase\<close> on these code units: A to Z and the accented capitals
  U+00C0 to U+00DE (the multiplication sign U+00D7 apart) move up by 32, every other
  code unit stays.
\<close>

definition toLowerCase_char :: "char \<Rightarrow> char" where
  "toLowerCase_char c =
     (let n = (of_char c :: nat)
      in if (65 \<le> n \<and> n \<le> 90) \<or> (192 \<le> n \<and> n \<le> 222 \<and> n \<noteq> 215)
         then char_of (n + 32) else c)"

definition toLowerCase :: "string \<Rightarrow> string" where
  "toLowerCase s = map toLowerCase_char s"

text \<open>\<^verbatim>\<open>s.includes(t)\<close>: \<open>t\<close> occurs in \<open>s\<close> as a contiguous run.\<close>

fun str_includes :: "string \<Rightarrow> string \<Rightarrow> bool" where
  "str_includes [] t = (t = [])"
| "str_includes (c # s) t = (prefix t (c # s) \<or> str_includes s t)"

text \<open>\<^verbatim>\<open>s.startsWith(t)\<close>.\<close>

definition startsWith :: "string \<Rightarrow> string \<Rightarrow> bool" where
  "startsWith s t = prefix t s"

section \<open>PreTaskHook\<close>

text \<open>
  The fields a \<^verbatim>\<open>PreTaskHook\<close> instance carries. The constructor draws the session id
  from the clock and from \<^verbatim>\<open>Math.random()\<close>, so two instances differ in it.
\<close>

record hook =
  swarmPath :: string
  memoryDb :: string
  sessionId :: string

subsection \<open>The description parameter of execute\<close>

text \<open>
  \<^verbatim>\<open>execute\<close> takes its description from the options with the default
  \<^verbatim>\<open>description = 'Unnamed task'\<close>, which stands in for \<^verbatim>\<open>undefined\<close> only; the value
  then goes to \<^verbatim>\<open>estimateTaskComplexity\<close> as it is.
\<close>

definition execute_description :: "jsval \<Rightarrow> jsval" where
  "execute_description description =
     (case description of JUndefined \<Rightarrow> JString ''Unnamed task'' | _ \<Rightarrow> description)"

subsection \<open>estimateTaskComplexity\<close>

text \<open>The object literal \<^verbatim>\<open>complexityIndicators\<close>, in the order \<^verbatim>\<open>Object.entries\<close> lists it.\<close>

definition complexityIndicators :: "(string \<times> string list) list" where
  "complexityIndicators =
     [(''simple'', [''fix'', ''update'', ''change'', ''modify'', ''add'']),
      (''medium'', [''implement'', ''create'', ''build'', ''develop'', ''integrate'']),
      (''complex'', [''refactor'', ''optimize'', ''architect'', ''redesign'', ''migrate'']),
      (''critical'', [''security'', ''performance'', ''scale'', ''distributed'', ''real-time''])]"

definition components_vocabulary :: "string list" where
  "components_vocabulary =
     [''frontend'', ''backend'', ''database'', ''api'', ''auth'', ''testing'']"

text \<open>The state the \<^verbatim>\<open>for\<close> loop over the indicators updates.\<close>

record estimate =
  level :: string
  estimatedMinutes :: nat
  patterns :: "string list"

text \<open>The \<^verbatim>\<open>switch\<close> on the indicator's name; it has no default branch.\<close>

definition switch_minutes :: "string \<Rightarrow> nat \<Rightarrow> nat" where
  "switch_minutes c m =
     (if c = ''simple'' then 15
      else if c = ''medium'' then 45
      else if c = ''complex'' then 120
      else if c = ''critical'' then 240
      else m)"

text \<open>The test \<^verbatim>\<open>keywords.some(keyword => description.toLowerCase().includes(keyword))\<close>.\<close>

definition qualifies :: "string \<Rightarrow> string list \<Rightarrow> bool" where
  "qualifies description keywords =
     list_ex (\<lambda>keyword. str_includes (toLowerCase description) keyword) keywords"

definition indicator_step :: "string \<Rightarrow> estimate \<Rightarrow> string \<times> string list \<Rightarrow> estimate" where
  "indicator_step description st entry =
     (case entry of (c, keywords) \<Rightarrow>
        if qualifies description keywords
        then \<lparr>level = c,
              estimatedMinutes = switch_minutes c (estimatedMinutes st),
              patterns = patterns st @
                filter (\<lambda>k. str_includes (toLowerCase description) k) keywords\<rparr>
        else st)"

definition indicator_loop :: "string \<Rightarrow> estimate" where
  "indicator_loop description =
     foldl (indicator_step description)
       \<lparr>level = ''simple'', estimatedMinutes = 15, patterns = []\<rparr> complexityIndicators"

text \<open>The object \<^verbatim>\<open>estimateTaskComplexity\<close> returns.\<close>

record complexity = estimate +
  components :: "string list"
  requiresCoordination :: bool

definition estimate_string :: "string \<Rightarrow> complexity" where
  "estimate_string description =
     (let st = indicator_loop description;
          detectedComponents =
            filter (\<lambda>c. str_includes (toLowerCase description) c) components_vocabulary;
          many = (length detectedComponents > 2)
      in \<lparr>level = (if many then ''complex'' else level st),
          estimatedMinutes =
            (if many then max (estimatedMinutes st) 90 else estimatedMinutes st),
          patterns = patterns st,
          components = detectedComponents,
          requiresCoordination = (length detectedComponents > 1)\<rparr>)"

text \<open>
  The method itself. The first thing it evaluates is \<^verbatim>\<open>description.toLowerCase()\<close>, which
  only a string has; it reads no field of the hook.
\<close>

fun estimateTaskComplexity :: "hook \<Rightarrow> jsval \<Rightarrow> error + complexity" where
  "estimateTaskComplexity this (JString description) = Inr (estimate_string description)"
| "estimateTaskComplexity this _ = Inl TypeError"

subsection \<open>selectOptimalTopology\<close>

record topology_config =
  suitable :: "string list"
  maxAgents :: nat
  coordination :: string

definition topologies :: "(string \<times> topology_config) list" where
  "topologies =
     [(''mesh'',
        \<lparr>suitable = [''collaborative'', ''research'', ''exploration'', ''brainstorm''],
         maxAgents = 6, coordination = ''distributed''\<rparr>),
      (''hierarchical'',
        \<lparr>suitable = [''complex'', ''multi-layer'', ''structured'', ''organized''],
         maxAgents = 10, coordination = ''centralized''\<rparr>),
      (''ring'',
        \<lparr>suitable = [''sequential'', ''pipeline'', ''workflow'', ''process''],
         maxAgents = 8, coordination = ''circular''\<rparr>),
      (''star'',
        \<lparr>suitable = [''centralized'', ''focused'', ''single-goal'', ''simple''],
         maxAgents = 5, coordination = ''hub-spoke''\<rparr>)]"

text \<open>The \<^verbatim>\<open>reduce\<close> that counts the suitable keywords the description contains.\<close>

definition topology_score :: "string \<Rightarrow> topology_config \<Rightarrow> nat" where
  "topology_score description config =
     foldl (\<lambda>acc keyword.
              acc + (if str_includes (toLowerCase description) keyword then 1 else 0))
       0 (suitable config)"

text \<open>The loop keeps the first topology with the strictly highest score.\<close>

definition topology_step ::
  "string \<Rightarrow> string \<times> nat \<Rightarrow> string \<times> topology_config \<Rightarrow> string \<times> nat" where
  "topology_step description st entry =
     (case st of (selectedTopology, maxScore) \<Rightarrow>
      case entry of (topology, config) \<Rightarrow>
        let score = topology_score description config
        in if score > maxScore then (topology, score) else (selectedTopology, maxScore))"

definition topology_loop :: "string \<Rightarrow> string \<times> nat" where
  "topology_loop description = foldl (topology_step description) (''mesh'', 0) topologies"

record topology =
  type :: string
  config :: "topology_config option"
  confidence :: string

definition select_string :: "string \<Rightarrow> topology" where
  "select_string description =
     (case topology_loop description of (scored, maxScore) \<Rightarrow>
        let selectedTopology =
              (if str_includes (toLowerCase description) ''api''
                  \<or> str_includes (toLowerCase description) ''service''
               then ''hierarchical''
               else if str_includes (toLowerCase description) ''test''
                  \<or> str_includes (toLowerCase description) ''validate''
               then ''ring''
               else scored)
        in \<lparr>type = selectedTopology,
            config = map_of topologies selectedTopology,
            confidence = (if maxScore > 0 then ''high'' else ''medium'')\<rparr>)"

fun selectOptimalTopology :: "hook \<Rightarrow> jsval \<Rightarrow> error + topology" where
  "selectOptimalTopology this (JString description) = Inr (select_string description)"
| "selectOptimalTopology this _ = Inl TypeError"

subsection \<open>autoSpawnAgents\<close>

text \<open>
  Reading \<^verbatim>\<open>obj[key]\<close> on an object literal finds the literal's own entry, or else the
  member of that name which every object inherits from \<^verbatim>\<open>Object.prototype\<close> (each of
  them a function or an object, none of them an array), or else \<^verbatim>\<open>undefined\<close>.
\<close>

definition object_prototype_members :: "string list" where
  "object_prototype_members =
     [''constructor'', ''__defineGetter__'', ''__defineSetter__'', ''hasOwnProperty'',
      ''__lookupGetter__'', ''__lookupSetter__'', ''isPrototypeOf'',
      ''propertyIsEnumerable'', ''toString'', ''valueOf'', ''__proto__'',
      ''toLocaleString'']"

datatype 'a property = Own 'a | Inherited string | Absent

definition get_property :: "(string \<times> 'a) list \<Rightarrow> string \<Rightarrow> 'a property" where
  "get_property obj key =
     (case map_of obj key of
        Some v \<Rightarrow> Own v
      | None \<Rightarrow> if key \<in> set object_prototype_members then Inherited key else Absent)"

text \<open>An agent is its \<^verbatim>\<open>type\<close> and its \<^verbatim>\<open>name\<close>.\<close>

type_synonym agent = "string \<times> string"

definition agentConfigs :: "(string \<times> agent list) list" where
  "agentConfigs =
     [(''simple'',
        [(''coder'', ''Implementation''), (''tester'', ''Validation'')]),
      (''medium'',
        [(''architect'', ''Design''), (''coder'', ''Backend''), (''coder'', ''Frontend''),
         (''tester'', ''QA'')]),
      (''complex'',
        [(''coordinator'', ''Lead''), (''architect'', ''System Design''),
         (''coder'', ''Core Implementation''), (''coder'', ''Integration''),
         (''analyst'', ''Performance''), (''tester'', ''Testing''),
         (''reviewer'', ''Code Review'')]),
      (''critical'',
        [(''coordinator'', ''Project Manager''), (''architect'', ''Chief Architect''),
         (''researcher'', ''Tech Research''), (''coder'', ''Senior Dev 1''),
         (''coder'', ''Senior Dev 2''), (''analyst'', ''Security Analyst''),
         (''optimizer'', ''Performance Expert''), (''tester'', ''QA Lead''),
         (''documenter'', ''Tech Writer''), (''monitor'', ''DevOps'')])]"

text \<open>The levels, in the order the table lists them: from the lowest to the highest.\<close>

definition level_order :: "string list" where
  "level_order = map fst agentConfigs"

text \<open>
  \<^verbatim>\<open>agentConfigs[complexity.level] || agentConfigs.simple\<close>: an own entry is taken, a
  missing one is replaced by the entry of \<^verbatim>\<open>simple\<close>, and an inherited member is truthy,
  so it is taken as it is and the \<^verbatim>\<open>agents.map\<close> that follows raises.
\<close>

definition selected_agents :: "string \<Rightarrow> error + agent list" where
  "selected_agents lvl =
     (case get_property agentConfigs lvl of
        Own agents \<Rightarrow> Inr agents
      | Absent \<Rightarrow>
          (case get_property agentConfigs ''simple'' of
             Own agents \<Rightarrow> Inr agents
           | _ \<Rightarrow> Inl TypeError)
      | Inherited m \<Rightarrow> Inl TypeError)"

text \<open>
  The method spawns one agent for each entry and returns their number; the result is
  the list of agents spawned and \<^verbatim>\<open>agents.length\<close>.
\<close>

record spawned =
  agents :: "agent list"
  count :: nat

definition autoSpawnAgents :: "hook \<Rightarrow> complexity \<Rightarrow> topology \<Rightarrow> error + spawned" where
  "autoSpawnAgents this cx topo =
     (case selected_agents (level cx) of
        Inl e \<Rightarrow> Inl e
      | Inr ags \<Rightarrow> Inr \<lparr>agents = ags, count = length ags\<rparr>)"

section \<open>PreCommandHook\<close>

subsection \<open>validateCommandSafety\<close>

definition dangerousCommands :: "string list" where
  "dangerousCommands =
     [''rm -rf'', ''dd if='', ''mkfs'', ''format'', '':(){ :|:& };:'', ''chmod -R 777'',
      ''chown -R'', ''> /dev/sda'', ''mv /* '', ''wget -O - | sh'', ''curl | bash'']"

record safety =
  safe :: bool
  warnings :: "string list"
  riskLevel :: string

text \<open>The loop over the dangerous patterns: each one the command contains is reported.\<close>

definition dangerous_step :: "string \<Rightarrow> safety \<Rightarrow> string \<Rightarrow> safety" where
  "dangerous_step command result dangerous =
     (if str_includes command dangerous
      then \<lparr>safe = False,
            warnings = warnings result @ [''Dangerous command pattern detected: '' @ dangerous],
            riskLevel = ''critical''\<rparr>
      else result)"

text \<open>
  The class \<^verbatim>\<open>\s\<close> of a regular expression, among the code units up to U+00FF: tab, line
  feed, vertical tab, form feed, carriage return, space and the no-break space.
\<close>

definition whitespace_chars :: "char list" where
  "whitespace_chars = [CHR 0x09, CHR 0x0A, CHR 0x0B, CHR 0x0C, CHR 0x0D, CHR 0x20, CHR 0xA0]"

text \<open>A word followed by one \<^verbatim>\<open>\s\<close>, as in \<^verbatim>\<open>/rm\s/\<close>.\<close>

definition includes_word_space :: "string \<Rightarrow> string \<Rightarrow> bool" where
  "includes_word_space s w = list_ex (\<lambda>c. str_includes s (w @ [c])) whitespace_chars"

text \<open>\<^verbatim>\<open>/rm\s|del\s|rmdir|mv\s|cp\s/\<close>\<close>

definition matches_file_system :: "string \<Rightarrow> bool" where
  "matches_file_system command =
     (includes_word_space command ''rm'' \<or> includes_word_space command ''del''
      \<or> str_includes command ''rmdir'' \<or> includes_word_space command ''mv''
      \<or> includes_word_space command ''cp'')"

text \<open>\<^verbatim>\<open>/wget|curl|nc|telnet|ssh|scp/\<close>\<close>

definition matches_network :: "string \<Rightarrow> bool" where
  "matches_network command =
     list_ex (str_includes command) [''wget'', ''curl'', ''nc'', ''telnet'', ''ssh'', ''scp'']"

text \<open>
  \<^verbatim>\<open>/\|\s*(bash|sh|python|node|ruby)/\<close>: a bar, any run of \<^verbatim>\<open>\s\<close>, then an interpreter.
  No interpreter starts with a \<^verbatim>\<open>\s\<close>, so the run is the longest one.
\<close>

fun matches_pipe_to_script :: "string \<Rightarrow> bool" where
  "matches_pipe_to_script [] = False"
| "matches_pipe_to_script (c # s) =
     ((c = CHR ''|''
        \<and> list_ex (\<lambda>w. prefix w (dropWhile (\<lambda>x. x \<in> set whitespace_chars) s))
             [''bash'', ''sh'', ''python'', ''node'', ''ruby''])
      \<or> matches_pipe_to_script s)"

text \<open>
  The replacement text of \<^verbatim>\<open>String.prototype.replace\<close> for a pattern without groups:
  \<^verbatim>\<open>$$\<close> is a dollar, \<^verbatim>\<open>$&\<close> the match, \<^verbatim>\<open>$`\<close> what precedes it, \<^verbatim>\<open>$'\<close> what follows it.
\<close>

fun getSubstitution :: "string \<Rightarrow> string \<Rightarrow> string \<Rightarrow> string \<Rightarrow> string" where
  "getSubstitution matched pre post [] = []"
| "getSubstitution matched pre post [c] = [c]"
| "getSubstitution matched pre post (c # d # rest) =
     (if c = CHR ''$'' \<and> d = CHR ''$'' then CHR ''$'' # getSubstitution matched pre post rest
      else if c = CHR ''$'' \<and> d = CHR ''&'' then matched @ getSubstitution matched pre post rest
      else if c = CHR ''$'' \<and> d = CHR 0x60 then pre @ getSubstitution matched pre post rest
      else if c = CHR ''$'' \<and> d = CHR 0x27 then post @ getSubstitution matched pre post rest
      else c # getSubstitution matched pre post (d # rest))"

text \<open>\<^verbatim>\<open>s.replace(/~/g, home)\<close>, with the part of \<open>s\<close> already passed as second argument.\<close>

fun replace_tilde :: "string \<Rightarrow> string \<Rightarrow> string \<Rightarrow> string" where
  "replace_tilde home pre [] = []"
| "replace_tilde home pre (c # rest) =
     (if c = CHR ''~''
      then getSubstitution ''~'' pre rest home @ replace_tilde home (pre @ [c]) rest
      else c # replace_tilde home (pre @ [c]) rest)"

text \<open>The two variables of the process environment that \<^verbatim>\<open>expandPaths\<close> reads.\<close>

record process_env =
  HOME :: "string option"
  USERPROFILE :: "string option"

text \<open>
  \<^verbatim>\<open>process.env.HOME || process.env.USERPROFILE\<close>; a replacement that is \<^verbatim>\<open>undefined\<close>
  is written out as that word.
\<close>

definition home_of :: "process_env \<Rightarrow> string" where
  "home_of env =
     (case HOME env of
        Some h \<Rightarrow>
          if h \<noteq> [] then h
          else (case USERPROFILE env of Some u \<Rightarrow> u | None \<Rightarrow> ''undefined'')
      | None \<Rightarrow> (case USERPROFILE env of Some u \<Rightarrow> u | None \<Rightarrow> ''undefined''))"

definition expandPaths :: "process_env \<Rightarrow> string \<Rightarrow> string" where
  "expandPaths env command =
     (if str_includes command ''~'' then replace_tilde (home_of env) [] command else command)"

text \<open>
  The checks that follow the loop, in the order of the method. Each one is an \<^verbatim>\<open>if\<close>
  that adds a warning and may change the risk level of the result so far.
\<close>

definition check_elevated :: "string \<Rightarrow> safety \<Rightarrow> safety" where
  "check_elevated command result =
     (if startsWith command ''sudo'' \<or> str_includes command ''| sudo''
      then result\<lparr>warnings := warnings result @ [''Command requires elevated privileges''],
                  riskLevel := ''high''\<rparr>
      else result)"

definition check_file_system :: "string \<Rightarrow> safety \<Rightarrow> safety" where
  "check_file_system command result =
     (if matches_file_system command
      then result\<lparr>warnings := warnings result @ [''Command performs file system operations''],
                  riskLevel := (if riskLevel result = [] \<or> riskLevel result = ''low''
                                then ''medium'' else riskLevel result)\<rparr>
      else result)"

definition check_network :: "string \<Rightarrow> safety \<Rightarrow> safety" where
  "check_network command result =
     (if matches_network command
      then result\<lparr>warnings := warnings result @ [''Command performs network operations''],
                  riskLevel := (if riskLevel result = [] \<or> riskLevel result = ''low''
                                then ''medium'' else riskLevel result)\<rparr>
      else result)"

definition check_script :: "string \<Rightarrow> safety \<Rightarrow> safety" where
  "check_script command result =
     (if matches_pipe_to_script command
      then result\<lparr>warnings := warnings result @ [''Command pipes to script interpreter''],
                  riskLevel := ''high''\<rparr>
      else result)"

definition check_paths :: "process_env \<Rightarrow> string \<Rightarrow> safety \<Rightarrow> safety" where
  "check_paths env command result =
     (if str_includes command ''..'' \<or> str_includes command ''~''
      then (let expandedCommand = expandPaths env command
            in if str_includes expandedCommand ''/etc/''
                  \<or> str_includes expandedCommand ''/sys/''
                  \<or> str_includes expandedCommand ''/proc/''
               then result\<lparr>warnings := warnings result @ [''Command accesses system directories''],
                           riskLevel := ''high''\<rparr>
               else result)
      else result)"

definition validateCommandSafety :: "process_env \<Rightarrow> string \<Rightarrow> safety" where
  "validateCommandSafety env command =
     check_paths env command
       (check_script command
         (check_network command
           (check_file_system command
             (check_elevated command
               (foldl (dangerous_step command)
                  \<lparr>safe = True, warnings = [], riskLevel = ''low''\<rparr> dangerousCommands)))))"

subsection \<open>execute\<close>

text \<open>
  The hook's \<^verbatim>\<open>execute\<close> runs up to three checks, reads their results by position, and
  either blocks the command or goes on to prepare resources, suggest optimizations, log
  the intent and print a summary. The other methods it calls (the dependencies found on
  the machine, the performance prediction, the resources prepared, the optimizations
  suggested) are parameters here: the decision to block reads none of their results. The
  second component of the result records which methods ran, in the order they were called.
\<close>

record dependencies =
  available :: bool
  missing :: "string list"
  requirements :: "string list"

record ('p, 'r, 'o) collaborators =
  environment :: process_env
  checkCommandDependencies :: "string \<Rightarrow> dependencies"
  predictCommandPerformance :: "string \<Rightarrow> 'p"
  prepareCommandResources :: "string \<Rightarrow> string list \<Rightarrow> string + 'r"
  suggestCommandOptimizations :: "string \<Rightarrow> 'p option \<Rightarrow> 'o list"

datatype phase =
    ValidateCommandSafety | CheckCommandDependencies | PredictCommandPerformance
  | PrepareCommandResources | SuggestCommandOptimizations | LogCommandIntent
  | DisplayPreCommandSummary

record command_options =
  command :: "string option"
  validateSafety :: bool
  prepareResources :: bool
  checkDependencies :: bool
  suggestOptimizations :: bool
  predictPerformance :: bool

text \<open>
  The object \<^verbatim>\<open>results\<close>; its fields carry the prefix \<open>r_\<close>, and \<open>r_error\<close> is the
  \<^verbatim>\<open>error\<close> the \<^verbatim>\<open>catch\<close> block adds (the text of an \<^verbatim>\<open>Error\<close>, or \<open>None\<close> for the
  message of a \<^verbatim>\<open>TypeError\<close> the engine raised).
\<close>

record ('p, 'r, 'o) results =
  r_command :: string
  r_continue :: bool
  r_safe :: bool
  r_optimizations :: "'o list"
  r_warnings :: "string list"
  r_resources :: "'r option"
  r_performance :: "'p option"

datatype ('p, 'r, 'o) execute_result =
    CommandRequired
  | Completed "('p, 'r, 'o) results"
  | Caught "('p, 'r, 'o) results" "string option"

datatype 'p operation = SafetyOp safety | DependenciesOp dependencies | PerformanceOp 'p

definition nth_operation :: "'a list \<Rightarrow> nat \<Rightarrow> 'a option" where
  "nth_operation ops i = (if i < length ops then Some (ops ! i) else None)"

text \<open>The part of \<^verbatim>\<open>execute\<close> after the safety block.\<close>

definition execute_sequential ::
  "('p, 'r, 'o) collaborators \<Rightarrow> command_options \<Rightarrow> string \<Rightarrow> ('p, 'r, 'o) results \<Rightarrow>
   'p operation option \<Rightarrow> 'p operation option \<Rightarrow> phase list \<Rightarrow>
   ('p, 'r, 'o) execute_result \<times> phase list" where
  "execute_sequential col opts cmd res deps perf trace =
     (let performance = (case perf of Some (PerformanceOp p) \<Rightarrow> Some p | _ \<Rightarrow> None);
          res1 = res\<lparr>r_performance := performance\<rparr>;
          prepared =
            (case deps of
               Some (DependenciesOp d) \<Rightarrow>
                 if prepareResources opts
                 then Some (prepareCommandResources col cmd (requirements d))
                 else None
             | _ \<Rightarrow> None);
          trace1 = trace @ (if prepared = None then [] else [PrepareCommandResources])
      in case prepared of
           Some (Inl message) \<Rightarrow> (Caught (res1\<lparr>r_continue := False\<rparr>) (Some message), trace1)
         | _ \<Rightarrow>
           (let res2 = (case prepared of
                          Some (Inr r) \<Rightarrow> res1\<lparr>r_resources := Some r\<rparr>
                        | _ \<Rightarrow> res1);
                res3 = (if suggestOptimizations opts
                        then res2\<lparr>r_optimizations :=
                                    suggestCommandOptimizations col cmd performance\<rparr>
                        else res2);
                trace2 = trace1
                  @ (if suggestOptimizations opts then [SuggestCommandOptimizations] else [])
                  @ [LogCommandIntent, DisplayPreCommandSummary]
            in (Completed res3, trace2)))"

definition execute ::
  "('p, 'r, 'o) collaborators \<Rightarrow> command_options \<Rightarrow>
   ('p, 'r, 'o) execute_result \<times> phase list" where
  "execute col opts =
     (case command opts of
        None \<Rightarrow> (CommandRequired, [])
      | Some cmd \<Rightarrow>
        if cmd = [] then (CommandRequired, [])
        else
          (let res = \<lparr>r_command = cmd, r_continue = True, r_safe = True,
                      r_optimizations = [], r_warnings = [], r_resources = None,
                      r_performance = None\<rparr>;
               operations =
                 (if validateSafety opts
                  then [SafetyOp (validateCommandSafety (environment col) cmd)] else [])
                 @ (if checkDependencies opts
                    then [DependenciesOp (checkCommandDependencies col cmd)] else [])
                 @ (if predictPerformance opts
                    then [PerformanceOp (predictCommandPerformance col cmd)] else []);
               trace =
                 (if validateSafety opts then [ValidateCommandSafety] else [])
                 @ (if checkDependencies opts then [CheckCommandDependencies] else [])
                 @ (if predictPerformance opts then [PredictCommandPerformance] else []);
               deps = nth_operation operations 1;
               perf = nth_operation operations 2
           in case nth_operation operations 0 of
                None \<Rightarrow> execute_sequential col opts cmd res deps perf trace
              | Some (SafetyOp s) \<Rightarrow>
                  if \<not> safe s
                  then (Completed (res\<lparr>r_safe := False, r_continue := False,
                                       r_warnings := warnings s\<rparr>), trace)
                  else execute_sequential col opts cmd (res\<lparr>r_warnings := warnings s\<rparr>)
                         deps perf trace
              | Some _ \<Rightarrow>
                  (Caught (res\<lparr>r_safe := False, r_continue := False\<rparr>) None, trace)))"

section \<open>HookManager\<close>

text \<open>
  What a hook class does when the manager runs \<^verbatim>\<open>new HookClass()\<close> and then
  \<^verbatim>\<open>hook.execute(options)\<close>: it returns a value (\<open>None\<close> for \<^verbatim>\<open>null\<close> and \<^verbatim>\<open>undefined\<close>) or
  it throws. A thrown value is an \<^verbatim>\<open>Error\<close> with a message, a \<^verbatim>\<open>TypeError\<close> raised by the
  engine, some other value that is not \<^verbatim>\<open>null\<close> or \<^verbatim>\<open>undefined\<close> (it has no message), or
  \<^verbatim>\<open>null\<close> or \<^verbatim>\<open>undefined\<close> itself.
\<close>

datatype thrown = ThrownError string | ThrownTypeError | ThrownOther | ThrownNullish

datatype 'r outcome = Returned "'r option" | Raised thrown

text \<open>The value of \<^verbatim>\<open>error.message\<close> the manager reports.\<close>

datatype error_text = Message string | TypeErrorMessage | NoMessage

record failure =
  success :: bool
  error :: error_text

datatype 'r hook_result = Passed 'r | Failed failure

datatype manager_event = TrackHookPerformance string | LogHookError string error_text

record ('o, 'r) hook_manager =
  hooks :: "(string \<times> ('o \<Rightarrow> 'r outcome)) list"
  manager_sessionId :: string

text \<open>The table the constructor builds; \<^verbatim>\<open>pre-bash\<close> is an alias of \<^verbatim>\<open>pre-command\<close>.\<close>

definition new_HookManager ::
  "('o \<Rightarrow> 'r outcome) \<Rightarrow> ('o \<Rightarrow> 'r outcome) \<Rightarrow> ('o \<Rightarrow> 'r outcome) \<Rightarrow>
   ('o \<Rightarrow> 'r outcome) \<Rightarrow> ('o \<Rightarrow> 'r outcome) \<Rightarrow> string \<Rightarrow> ('o, 'r) hook_manager" where
  "new_HookManager PreTaskHook PostTaskHook PreCommandHook PostEditHook SessionEndHook sid =
     \<lparr>hooks = [(''pre-task'', PreTaskHook), (''post-task'', PostTaskHook),
               (''pre-command'', PreCommandHook), (''pre-bash'', PreCommandHook),
               (''post-edit'', PostEditHook), (''session-end'', SessionEndHook)],
      manager_sessionId = sid\<rparr>"

text \<open>
  The \<^verbatim>\<open>catch\<close> block of \<^verbatim>\<open>executeHook\<close>. It reads \<^verbatim>\<open>error.message\<close> before anything
  else, which itself raises when the value caught is \<^verbatim>\<open>null\<close> or \<^verbatim>\<open>undefined\<close>.
\<close>

definition catch_hook_error ::
  "string \<Rightarrow> thrown \<Rightarrow> error + 'r hook_result \<times> manager_event list" where
  "catch_hook_error hookName e =
     (case e of
        ThrownNullish \<Rightarrow> Inl TypeError
      | ThrownError m \<Rightarrow>
          Inr (Failed \<lparr>success = False, error = Message m\<rparr>, [LogHookError hookName (Message m)])
      | ThrownTypeError \<Rightarrow>
          Inr (Failed \<lparr>success = False, error = TypeErrorMessage\<rparr>,
               [LogHookError hookName TypeErrorMessage])
      | ThrownOther \<Rightarrow>
          Inr (Failed \<lparr>success = False, error = NoMessage\<rparr>, [LogHookError hookName NoMessage]))"

text \<open>
  \<^verbatim>\<open>this.hooks[hookName]\<close> is read as any property of an object literal. A name that is
  missing gives the unknown-hook answer. An inherited member is truthy and passes the test:
  \<^verbatim>\<open>constructor\<close> is \<^verbatim>\<open>Object\<close>, whose instance has no \<^verbatim>\<open>execute\<close>, and the others are not
  constructors; both raise a \<^verbatim>\<open>TypeError\<close> inside the \<^verbatim>\<open>try\<close>. Reading \<^verbatim>\<open>result.success\<close> of
  a hook that returned \<^verbatim>\<open>null\<close> or \<^verbatim>\<open>undefined\<close> raises one as well.
\<close>

definition executeHook ::
  "('o, 'r) hook_manager \<Rightarrow> string \<Rightarrow> 'o \<Rightarrow> error + 'r hook_result \<times> manager_event list" where
  "executeHook mgr hookName options =
     (case get_property (hooks mgr) hookName of
        Absent \<Rightarrow>
          Inr (Failed \<lparr>success = False, error = Message (''Unknown hook: '' @ hookName)\<rparr>, [])
      | Inherited m \<Rightarrow> catch_hook_error hookName ThrownTypeError
      | Own HookClass \<Rightarrow>
          (case HookClass options of
             Returned (Some result) \<Rightarrow> Inr (Passed result, [TrackHookPerformance hookName])
           | Returned None \<Rightarrow> catch_hook_error hookName ThrownTypeError
           | Raised e \<Rightarrow> catch_hook_error hookName e))"

section \<open>RequirementResolver\<close>

text \<open>
  The requirement resolver belongs to the prompt analyzer, a Python package of the
  repository whose sources are missing from the files; section 4.4 of the specification
  describes it. Each definition of this section follows that description.
\<close>

text \<open>
  Modelled from the spec: the resolver's source is missing; an entry of a mapping table is
  \<^verbatim>\<open>{required: list<ToolId>, recommended: list<ToolId>}\<close> (section 3), which is also the
  shape of the resolver's answer. A tool id is a string.
\<close>

record tool_requirement =
  required :: "string list"
  recommended :: "string list"

text \<open>
  Modelled from the spec: the resolver's source is missing; its configuration is the
  three mapping tables of section 3 (by pattern name, by complexity level, by agent role),
  the always-on tool ids, and the trigger lists of step 5, each with the tools it adds.
\<close>

record resolver_config =
  patternTools :: "string \<Rightarrow> tool_requirement option"
  levelTools :: "nat \<Rightarrow> tool_requirement option"
  roleTools :: "string \<Rightarrow> tool_requirement option"
  alwaysOn :: "string list"
  triggers :: "(string list \<times> string list) list"

text \<open>
  Modelled from the spec: the resolver's source is missing; "an unknown pattern/level/role
  key (not present in a mapping table) resolves to an empty contribution for that source".
\<close>

definition lookup_tools :: "('k \<Rightarrow> tool_requirement option) \<Rightarrow> 'k \<Rightarrow> tool_requirement" where
  "lookup_tools table key =
     (case table key of Some t \<Rightarrow> t | None \<Rightarrow> \<lparr>required = [], recommended = []\<rparr>)"

text \<open>
  Modelled from the spec: the resolver's source is missing; step 5 adds the tools of a
  trigger list when the prompt contains one of its keywords, "via simple case-insensitive
  substring search", the first match being enough.
\<close>

definition trigger_tools :: "string \<Rightarrow> (string list \<times> string list) list \<Rightarrow> string list" where
  "trigger_tools prompt trigger_lists =
     concat (map (\<lambda>(keywords, tools).
                    if list_ex (\<lambda>k. str_includes (toLowerCase prompt) (toLowerCase k)) keywords
                    then tools else [])
                 trigger_lists)"

text \<open>
  Modelled from the spec: the resolver's source is missing; steps 1 to 6 of section 4.4.
  The tools of every matched pattern, of the level and of every recommended role are
  united (1 to 3); the always-on tools (4) and the triggered tools (5) join the required
  ones; both sets are returned without duplicates, sorted by tool id, and a recommended
  tool that is required is dropped from the recommended ones (6).
\<close>

definition resolve ::
  "resolver_config \<Rightarrow> string \<Rightarrow> string list \<Rightarrow> nat \<Rightarrow> string list \<Rightarrow> tool_requirement" where
  "resolve cfg prompt matchedPatterns lvl recommendedRoles =
     (let sources = map (lookup_tools (patternTools cfg)) matchedPatterns
                    @ [lookup_tools (levelTools cfg) lvl]
                    @ map (lookup_tools (roleTools cfg)) recommendedRoles;
          req = concat (map required sources) @ alwaysOn cfg
                @ trigger_tools prompt (triggers cfg);
          rec = concat (map recommended sources)
      in \<lparr>required = sort (remdups req),
          recommended = sort (remdups (filter (\<lambda>t. t \<notin> set req) rec))\<rparr>)"

section \<open>Sample values\<close>

text \<open>A hook instance and a topology for the worked instances of the theorems below.\<close>

definition example_hook :: hook where
  "example_hook =
     \<lparr>swarmPath = ''.swarm'', memoryDb = ''.swarm/memory.db'', sessionId = ''session-1''\<rparr>"

definition example_topology :: topology where
  "example_topology = \<lparr>type = ''mesh'', config = None, confidence = ''medium''\<rparr>"

text \<open>A configuration of the resolver with two always-on tools.\<close>

definition example_config :: resolver_config where
  "example_config =
     \<lparr>patternTools =
        [''api-development'' \<mapsto> \<lparr>required = [''apiTool''], recommended = [''docsTool'']\<rparr>],
      levelTools = Map.empty,
      roleTools = Map.empty,
      alwaysOn = [''alwaysOnTool2'', ''alwaysOnTool1''],
      triggers = [([''docs'', ''documentation''], [''docsTool''])]\<rparr>"

text \<open>An estimate, to be given one level or another.\<close>

definition example_complexity :: complexity where
  "example_complexity =
     \<lparr>level = ''simple'', estimatedMinutes = 15, patterns = [], components = [],
      requiresCoordination = False\<rparr>"

section \<open>Strings\<close>

lemma str_includes_sublist: "str_includes s t \<longleftrightarrow> sublist t s"
  by (induction s) (auto simp: sublist_Cons_right)

text \<open>
  Looking for a lower-case keyword in the lower-case prompt is looking in the prompt for
  the keyword in any case of letters.
\<close>

lemma includes_lower_case_iff:
  "str_includes (toLowerCase d) k \<longleftrightarrow> (\<exists>u. sublist u d \<and> toLowerCase u = k)"
proof
  assume "str_includes (toLowerCase d) k"
  then have "sublist k (map toLowerCase_char d)"
    by (simp add: str_includes_sublist toLowerCase_def)
  then obtain u where "sublist u d" "k = map toLowerCase_char u"
    using sublist_map_rightE by blast
  then show "\<exists>u. sublist u d \<and> toLowerCase u = k"
    by (auto simp: toLowerCase_def)
next
  assume "\<exists>u. sublist u d \<and> toLowerCase u = k"
  then obtain u where u: "sublist u d" "toLowerCase u = k" by blast
  from u(1) obtain p q where "d = p @ u @ q" by (auto simp: sublist_def)
  with u(2) have "toLowerCase d = toLowerCase p @ k @ toLowerCase q"
    by (simp add: toLowerCase_def)
  then show "str_includes (toLowerCase d) k"
    by (simp add: str_includes_sublist)
qed

lemma filter_empty_if_none: "\<not> list_ex P xs \<Longrightarrow> filter P xs = []"
  by (induction xs) auto

section \<open>The complexity estimate\<close>

subsection \<open>The matched keywords\<close>

lemma patterns_indicator_step:
  "patterns (indicator_step d st entry) =
     patterns st @ filter (\<lambda>k. str_includes (toLowerCase d) k) (snd entry)"
  by (cases entry) (simp add: indicator_step_def qualifies_def filter_empty_if_none)

lemma patterns_foldl:
  "patterns (foldl (indicator_step d) st entries) =
     patterns st @ filter (\<lambda>k. str_includes (toLowerCase d) k) (concat (map snd entries))"
  by (induction entries arbitrary: st) (simp_all add: patterns_indicator_step)

lemma patterns_indicator_loop:
  "patterns (indicator_loop d) =
     filter (\<lambda>k. str_includes (toLowerCase d) k) (concat (map snd complexityIndicators))"
  by (simp add: indicator_loop_def patterns_foldl)

text \<open>Every keyword of the catalog is written in lower case.\<close>

lemma keywords_lower_case:
  "k \<in> set (concat (map snd complexityIndicators)) \<Longrightarrow> toLowerCase k = k"
  by (auto simp: complexityIndicators_def toLowerCase_def toLowerCase_char_def)

lemma patterns_estimate_string: "patterns (estimate_string d) = patterns (indicator_loop d)"
  by (simp add: estimate_string_def Let_def)

text \<open>
  Claim C6. For every prompt, an entry of the catalog qualifies exactly when one of its
  keywords, in lower case, occurs in the prompt in lower case; and the list of matched
  keywords the estimate returns is the catalog's keywords, in catalog order, filtered by
  that same test: none that occurs is left out and none that does not occur is included.
\<close>

theorem matched_patterns_exact:
  "(\<forall>entry \<in> set complexityIndicators.
      qualifies d (snd entry) \<longleftrightarrow>
        (\<exists>k \<in> set (snd entry). str_includes (toLowerCase d) (toLowerCase k)))
   \<and> (\<exists>r. estimateTaskComplexity this (JString d) = Inr r
        \<and> patterns r =
            filter (\<lambda>k. str_includes (toLowerCase d) (toLowerCase k))
              (concat (map snd complexityIndicators)))"
proof (intro conjI ballI)
  fix entry assume e: "entry \<in> set complexityIndicators"
  have "\<And>k. k \<in> set (snd entry) \<Longrightarrow> toLowerCase k = k"
    using e keywords_lower_case by force
  then show "qualifies d (snd entry) \<longleftrightarrow>
        (\<exists>k \<in> set (snd entry). str_includes (toLowerCase d) (toLowerCase k))"
    by (simp add: qualifies_def list_ex_iff)
next
  have "filter (\<lambda>k. str_includes (toLowerCase d) (toLowerCase k))
              (concat (map snd complexityIndicators))
      = filter (\<lambda>k. str_includes (toLowerCase d) k) (concat (map snd complexityIndicators))"
    by (rule filter_cong[OF refl]) (simp add: keywords_lower_case)
  then show "\<exists>r. estimateTaskComplexity this (JString d) = Inr r
        \<and> patterns r =
            filter (\<lambda>k. str_includes (toLowerCase d) (toLowerCase k))
              (concat (map snd complexityIndicators))"
    by (simp add: patterns_estimate_string patterns_indicator_loop)
qed

theorem matched_patterns_exact_witness:
  "(''complex'', [''refactor'', ''optimize'', ''architect'', ''redesign'', ''migrate''])
      \<in> set complexityIndicators
   \<and> qualifies ''Refactor the API and add tests''
        [''refactor'', ''optimize'', ''architect'', ''redesign'', ''migrate'']
   \<and> (\<exists>r. estimateTaskComplexity example_hook (JString ''Refactor the API and add tests'')
            = Inr r
        \<and> patterns r = [''add'', ''refactor''])"
proof -
  let ?d = "''Refactor the API and add tests''"
  let ?kws = "[''refactor'', ''optimize'', ''architect'', ''redesign'', ''migrate'']"
  note t = matched_patterns_exact [of ?d example_hook]
  have mem: "(''complex'', ?kws) \<in> set complexityIndicators"
    by (simp add: complexityIndicators_def)
  have hit: "\<exists>k \<in> set ?kws. str_includes (toLowerCase ?d) (toLowerCase k)"
    by code_simp
  have ks: "filter (\<lambda>k. str_includes (toLowerCase ?d) (toLowerCase k))
              (concat (map snd complexityIndicators)) = [''add'', ''refactor'']"
    by code_simp
  from t mem have "qualifies ?d ?kws \<longleftrightarrow>
      (\<exists>k \<in> set ?kws. str_includes (toLowerCase ?d) (toLowerCase k))"
    by fastforce
  with hit have q: "qualifies ?d ?kws" by blast
  from t ks have "\<exists>r. estimateTaskComplexity example_hook (JString ?d) = Inr r
                    \<and> patterns r = [''add'', ''refactor'']"
    by (simp only:)
  with mem q show ?thesis by blast
qed

subsection \<open>The multi-component rule\<close>

text \<open>
  More than two components set the level to \<^verbatim>\<open>complex\<close>, whatever it was, and raise the
  estimated minutes to 90 at least.
\<close>

lemma multi_component_level:
  "estimateTaskComplexity this (JString d) = Inr r \<Longrightarrow> length (components r) > 2 \<Longrightarrow>
     level r = ''complex'' \<and> 90 \<le> estimatedMinutes r"
  by (auto simp: estimate_string_def Let_def)

text \<open>
  Claim C1. The claim asks that more than two components only raise the level. On the
  prompt \<^verbatim>\<open>security\<close> the level is \<^verbatim>\<open>critical\<close>; adding three components to that prompt
  brings the level down to \<^verbatim>\<open>complex\<close>, while the estimated minutes keep the 240 of
  \<^verbatim>\<open>critical\<close>.
\<close>

theorem multi_component_lowers_critical:
  "estimateTaskComplexity this (JString ''security'') =
     Inr \<lparr>level = ''critical'', estimatedMinutes = 240, patterns = [''security''],
          components = [], requiresCoordination = False\<rparr>
   \<and> estimateTaskComplexity this (JString ''security frontend backend database'') =
     Inr \<lparr>level = ''complex'', estimatedMinutes = 240, patterns = [''security''],
          components = [''frontend'', ''backend'', ''database''],
          requiresCoordination = True\<rparr>"
proof -
  have "estimate_string ''security'' =
     \<lparr>level = ''critical'', estimatedMinutes = 240, patterns = [''security''],
          components = [], requiresCoordination = False\<rparr>"
    by code_simp
  moreover have "estimate_string ''security frontend backend database'' =
     \<lparr>level = ''complex'', estimatedMinutes = 240, patterns = [''security''],
          components = [''frontend'', ''backend'', ''database''],
          requiresCoordination = True\<rparr>"
    by code_simp
  ultimately show ?thesis by simp
qed

subsection \<open>Prompts that are empty or not strings\<close>

text \<open>
  Claim C2, as stated: the analysis of a prompt that is not a string never throws. The
  command line hands the hook the value \<^verbatim>\<open>true\<close> for a description option without a
  value, and the estimate of it raises a \<^verbatim>\<open>TypeError\<close>.
\<close>

theorem estimate_nonstring_counterexample:
  "\<not> is_string (JBoolean True)
   \<and> estimateTaskComplexity example_hook (JBoolean True) = Inl TypeError"
  by simp

text \<open>
  Claim C2, amended. The estimate of every string returns. For the empty string, and for
  a description left out (which \<^verbatim>\<open>execute\<close> replaces by \<^verbatim>\<open>Unnamed task\<close>), the result is
  the least one: the lowest level \<^verbatim>\<open>simple\<close>, 15 minutes, no matched keyword, no
  component. The estimate of a value that is not a string raises a \<^verbatim>\<open>TypeError\<close>.
\<close>

theorem estimate_minimal_for_empty:
  "estimateTaskComplexity this (JString '''') =
     Inr \<lparr>level = ''simple'', estimatedMinutes = 15, patterns = [], components = [],
          requiresCoordination = False\<rparr>
   \<and> estimateTaskComplexity this (execute_description JUndefined) =
     Inr \<lparr>level = ''simple'', estimatedMinutes = 15, patterns = [], components = [],
          requiresCoordination = False\<rparr>
   \<and> hd level_order = ''simple''
   \<and> (\<exists>r. estimateTaskComplexity this (JString s) = Inr r)
   \<and> (\<not> is_string v \<longrightarrow> estimateTaskComplexity this v = Inl TypeError)"
proof -
  have "estimate_string '''' =
     \<lparr>level = ''simple'', estimatedMinutes = 15, patterns = [], components = [],
          requiresCoordination = False\<rparr>"
    by code_simp
  moreover have "estimate_string ''Unnamed task'' =
     \<lparr>level = ''simple'', estimatedMinutes = 15, patterns = [], components = [],
          requiresCoordination = False\<rparr>"
    by code_simp
  moreover have "\<not> is_string v \<longrightarrow> estimateTaskComplexity this v = Inl TypeError"
    by (cases v) simp_all
  moreover have "hd level_order = ''simple''"
    by (simp add: level_order_def agentConfigs_def)
  ultimately show ?thesis by (simp add: execute_description_def)
qed

theorem estimate_minimal_for_empty_witness:
  "\<not> is_string JNull
   \<and> estimateTaskComplexity example_hook JNull = Inl TypeError
   \<and> estimateTaskComplexity example_hook (JString '''') =
     Inr \<lparr>level = ''simple'', estimatedMinutes = 15, patterns = [], components = [],
          requiresCoordination = False\<rparr>"
  using estimate_minimal_for_empty [of example_hook "''''" JNull] by simp

section \<open>The agents of a level\<close>

lemmas agent_defs = autoSpawnAgents_def selected_agents_def get_property_def agentConfigs_def
  object_prototype_members_def level_order_def

text \<open>
  Claim C4. Of two levels of the table, the higher one is given at least as many agents
  as the lower one; the table lists the levels as simple, medium, complex, critical.
\<close>

theorem agent_count_monotone:
  "i < j \<Longrightarrow> j < length level_order \<Longrightarrow>
     level_order = [''simple'', ''medium'', ''complex'', ''critical'']
     \<and> (\<exists>m n. autoSpawnAgents this (cx\<lparr>level := level_order ! i\<rparr>) topo = Inr m
             \<and> autoSpawnAgents this (cx\<lparr>level := level_order ! j\<rparr>) topo = Inr n
             \<and> count m \<le> count n)"
proof -
  assume ij: "i < j" and j: "j < length level_order"
  have len: "length level_order = 4" by (simp add: level_order_def agentConfigs_def)
  from j len have "j = 0 \<or> j = 1 \<or> j = 2 \<or> j = 3" by arith
  moreover from ij j len have "i = 0 \<or> i = 1 \<or> i = 2" by arith
  ultimately show ?thesis using ij
    by (elim disjE) (simp_all add: agent_defs)
qed

theorem agent_count_monotone_witness:
  "(1::nat) < 3 \<and> 3 < length level_order
   \<and> level_order ! 1 = ''medium'' \<and> level_order ! 3 = ''critical''
   \<and> (\<exists>m n. autoSpawnAgents example_hook (example_complexity\<lparr>level := level_order ! 1\<rparr>)
               example_topology = Inr m
             \<and> autoSpawnAgents example_hook (example_complexity\<lparr>level := level_order ! 3\<rparr>)
                 example_topology = Inr n
             \<and> count m = 4 \<and> count n = 10 \<and> count m \<le> count n)"
  using agent_count_monotone [of 1 3 example_hook example_complexity example_topology]
  by (simp add: agent_defs)

text \<open>
  Claim C5, as stated: a level the table does not know contributes no agents. The level
  \<^verbatim>\<open>extreme\<close> is not in the table, and two agents are spawned for it.
\<close>

theorem unknown_level_counterexample:
  "''extreme'' \<notin> set level_order
   \<and> autoSpawnAgents example_hook (example_complexity\<lparr>level := ''extreme''\<rparr>) example_topology
     = Inr \<lparr>agents = [(''coder'', ''Implementation''), (''tester'', ''Validation'')],
            count = 2\<rparr>"
  by (simp add: agent_defs)

text \<open>
  A level that is not a key of the agent table, and not the name of a member every object
  inherits, raises no error; the entry of \<^verbatim>\<open>simple\<close> is put in its place.
\<close>

lemma autoSpawnAgents_unknown_level:
  "level cx \<notin> set level_order \<Longrightarrow> level cx \<notin> set object_prototype_members \<Longrightarrow>
     autoSpawnAgents this cx topo =
       Inr \<lparr>agents = [(''coder'', ''Implementation''), (''tester'', ''Validation'')],
            count = 2\<rparr>"
proof -
  assume a: "level cx \<notin> set level_order" and b: "level cx \<notin> set object_prototype_members"
  from a have "map_of agentConfigs (level cx) = None"
    by (simp add: level_order_def map_of_eq_None_iff)
  with b have "get_property agentConfigs (level cx) = Absent"
    by (simp add: get_property_def)
  moreover have "get_property agentConfigs ''simple'' =
      Own [(''coder'', ''Implementation''), (''tester'', ''Validation'')]"
    by (simp add: get_property_def agentConfigs_def)
  ultimately show ?thesis
    by (simp add: autoSpawnAgents_def selected_agents_def)
qed

text \<open>In the tool tables of the resolver, a key that is missing contributes no tool.\<close>

lemma lookup_tools_unknown:
  "table key = None \<Longrightarrow> lookup_tools table key = \<lparr>required = [], recommended = []\<rparr>"
  by (simp add: lookup_tools_def)

lemma unknown_keys_no_required:
  "\<forall>k \<in> set ks. table k = None \<Longrightarrow> concat (map required (map (lookup_tools table) ks)) = []"
  by (induction ks) (simp_all add: lookup_tools_unknown)

lemma unknown_keys_no_recommended:
  "\<forall>k \<in> set ks. table k = None \<Longrightarrow>
     concat (map recommended (map (lookup_tools table) ks)) = []"
  by (induction ks) (simp_all add: lookup_tools_unknown)

lemma resolve_all_unknown:
  assumes "\<forall>p \<in> set ps. patternTools cfg p = None" and "levelTools cfg lvl = None"
    and "\<forall>r \<in> set roles. roleTools cfg r = None"
  shows "resolve cfg prompt ps lvl roles =
           \<lparr>required = sort (remdups (alwaysOn cfg @ trigger_tools prompt (triggers cfg))),
            recommended = []\<rparr>"
  using assms
  by (simp add: resolve_def Let_def unknown_keys_no_required unknown_keys_no_recommended
        lookup_tools_unknown del: map_map)

lemma resolve_unknown_pattern:
  "patternTools cfg p = None \<Longrightarrow>
     resolve cfg prompt (ps @ p # ps') lvl roles = resolve cfg prompt (ps @ ps') lvl roles"
  by (simp add: resolve_def Let_def lookup_tools_unknown)

lemma resolve_unknown_role:
  "roleTools cfg r = None \<Longrightarrow>
     resolve cfg prompt ps lvl (rs @ r # rs') = resolve cfg prompt ps lvl (rs @ rs')"
  by (simp add: resolve_def Let_def lookup_tools_unknown)

lemma resolve_unknown_level:
  "levelTools cfg lvl = None \<Longrightarrow>
     resolve cfg prompt ps lvl roles =
     resolve (cfg\<lparr>levelTools := (levelTools cfg)(lvl \<mapsto> \<lparr>required = [], recommended = []\<rparr>)\<rparr>)
       prompt ps lvl roles"
  by (simp add: resolve_def Let_def lookup_tools_def)

text \<open>
  Claim C5, amended. A key that a tool mapping table does not hold (a pattern name, a
  complexity level or an agent role) contributes nothing for its source: the lookup gives
  the empty entry, an unknown pattern or role can be struck from the request, an unknown
  level counts as a level without tools, and when every key is unknown the resolver
  returns the always-on and triggered tools alone; no error arises and the resolver
  returns. In the level-to-agents table an unknown level (one that is not the name of a
  member every object inherits) raises no error either and the lookup completes, but its
  contribution is not empty: the entry of \<^verbatim>\<open>simple\<close> is put in its place, two agents.
\<close>

theorem unknown_keys_resolution:
  "(table key = None \<longrightarrow> lookup_tools table key = \<lparr>required = [], recommended = []\<rparr>)
   \<and> (patternTools cfg p = None \<longrightarrow>
        resolve cfg prompt (ps @ p # ps') lvl roles = resolve cfg prompt (ps @ ps') lvl roles)
   \<and> (roleTools cfg r = None \<longrightarrow>
        resolve cfg prompt ps lvl (rs @ r # rs') = resolve cfg prompt ps lvl (rs @ rs'))
   \<and> (levelTools cfg lvl = None \<longrightarrow>
        resolve cfg prompt ps lvl roles =
        resolve (cfg\<lparr>levelTools :=
                       (levelTools cfg)(lvl \<mapsto> \<lparr>required = [], recommended = []\<rparr>)\<rparr>)
          prompt ps lvl roles)
   \<and> ((\<forall>p \<in> set ps. patternTools cfg p = None) \<and> levelTools cfg lvl = None
        \<and> (\<forall>r \<in> set roles. roleTools cfg r = None) \<longrightarrow>
        resolve cfg prompt ps lvl roles =
          \<lparr>required = sort (remdups (alwaysOn cfg @ trigger_tools prompt (triggers cfg))),
           recommended = []\<rparr>)
   \<and> (level cx \<notin> set level_order \<and> level cx \<notin> set object_prototype_members \<longrightarrow>
        autoSpawnAgents this cx topo =
          Inr \<lparr>agents = [(''coder'', ''Implementation''), (''tester'', ''Validation'')],
               count = 2\<rparr>)"
  using lookup_tools_unknown [of table key]
    resolve_unknown_pattern [of cfg p prompt ps ps' lvl roles]
    resolve_unknown_role [of cfg r prompt ps lvl rs rs']
    resolve_unknown_level [of cfg lvl prompt ps roles]
    resolve_all_unknown [of ps cfg lvl roles prompt]
    autoSpawnAgents_unknown_level [of cx this topo]
  by blast

theorem unknown_keys_resolution_witness:
  "patternTools example_config ''unknown-pattern'' = None
   \<and> levelTools example_config 7 = None
   \<and> roleTools example_config ''unknown-role'' = None
   \<and> lookup_tools (patternTools example_config) ''unknown-pattern''
       = \<lparr>required = [], recommended = []\<rparr>
   \<and> resolve example_config ''hi'' [''api-development'', ''unknown-pattern''] 7 []
       = resolve example_config ''hi'' [''api-development''] 7 []
   \<and> resolve example_config ''hi'' [''unknown-pattern''] 7 [''unknown-role'']
       = \<lparr>required = [''alwaysOnTool1'', ''alwaysOnTool2''], recommended = []\<rparr>
   \<and> ''unknown'' \<notin> set level_order \<and> ''unknown'' \<notin> set object_prototype_members
   \<and> autoSpawnAgents example_hook (example_complexity\<lparr>level := ''unknown''\<rparr>) example_topology =
       Inr \<lparr>agents = [(''coder'', ''Implementation''), (''tester'', ''Validation'')],
            count = 2\<rparr>"
proof -
  have p: "patternTools example_config ''unknown-pattern'' = None"
    by (simp add: example_config_def)
  have l: "levelTools example_config 7 = None" by (simp add: example_config_def)
  have r: "roleTools example_config ''unknown-role'' = None" by (simp add: example_config_def)
  have a: "''unknown'' \<notin> set level_order"
    by (simp add: level_order_def agentConfigs_def)
  have b: "''unknown'' \<notin> set object_prototype_members"
    by (simp add: object_prototype_members_def)
  have t: "sort (remdups (alwaysOn example_config @ trigger_tools ''hi'' (triggers example_config)))
             = [''alwaysOnTool1'', ''alwaysOnTool2'']"
    by code_simp
  note u1 = unknown_keys_resolution
      [of "patternTools example_config" "''unknown-pattern''" example_config "''unknown-pattern''"
          "''hi''" "[''api-development'']" "[]" 7 "[]" "''unknown-role''" "[]" "[]"
          "example_complexity\<lparr>level := ''unknown''\<rparr>" example_hook example_topology]
  note u2 = unknown_keys_resolution
      [of "patternTools example_config" "''unknown-pattern''" example_config "''unknown-pattern''"
          "''hi''" "[''unknown-pattern'']" "[]" 7 "[''unknown-role'']" "''unknown-role''" "[]" "[]"
          "example_complexity\<lparr>level := ''unknown''\<rparr>" example_hook example_topology]
  from u1 p have c1: "lookup_tools (patternTools example_config) ''unknown-pattern''
       = \<lparr>required = [], recommended = []\<rparr>" by blast
  from u1 p have c2: "resolve example_config ''hi'' [''api-development'', ''unknown-pattern''] 7 []
       = resolve example_config ''hi'' [''api-development''] 7 []" by simp
  from p have e1: "\<forall>p \<in> set [''unknown-pattern'']. patternTools example_config p = None"
    by simp
  from r have e2: "\<forall>r \<in> set [''unknown-role'']. roleTools example_config r = None"
    by simp
  from u2 e1 l e2
  have "resolve example_config ''hi'' [''unknown-pattern''] 7 [''unknown-role'']
       = \<lparr>required = sort (remdups (alwaysOn example_config
                                          @ trigger_tools ''hi'' (triggers example_config))),
          recommended = []\<rparr>"
    by blast
  with t have c3: "resolve example_config ''hi'' [''unknown-pattern''] 7 [''unknown-role'']
       = \<lparr>required = [''alwaysOnTool1'', ''alwaysOnTool2''], recommended = []\<rparr>"
    by (simp only:)
  from u1 a b have c4: "autoSpawnAgents example_hook (example_complexity\<lparr>level := ''unknown''\<rparr>)
       example_topology =
       Inr \<lparr>agents = [(''coder'', ''Implementation''), (''tester'', ''Validation'')],
            count = 2\<rparr>" by simp
  from p l r c1 c2 c3 c4 a b show ?thesis by blast
qed

text \<open>The name of an inherited member is taken for an entry, and spawning raises.\<close>

lemma inherited_level_raises:
  "autoSpawnAgents this (cx\<lparr>level := ''constructor''\<rparr>) topo = Inl TypeError"
  by (simp add: agent_defs)

section \<open>The topology\<close>

lemma type_select_string:
  "type (select_string d) =
     (if str_includes (toLowerCase d) ''api'' \<or> str_includes (toLowerCase d) ''service''
      then ''hierarchical''
      else if str_includes (toLowerCase d) ''test'' \<or> str_includes (toLowerCase d) ''validate''
      then ''ring''
      else fst (topology_loop d))"
  by (simp add: select_string_def Let_def split: prod.splits)

text \<open>
  Claim C10. A description that contains \<^verbatim>\<open>api\<close> or \<^verbatim>\<open>service\<close>, in any case of letters,
  is given the hierarchical topology, whatever the keyword scores chose; one that contains
  neither but contains \<^verbatim>\<open>test\<close> or \<^verbatim>\<open>validate\<close> is given the ring.
\<close>

theorem topology_special_patterns:
  "\<exists>r. selectOptimalTopology this (JString d) = Inr r
     \<and> (str_includes (toLowerCase d) ''api'' \<or> str_includes (toLowerCase d) ''service''
          \<longrightarrow> type r = ''hierarchical'')
     \<and> (\<not> str_includes (toLowerCase d) ''api'' \<and> \<not> str_includes (toLowerCase d) ''service''
          \<and> (str_includes (toLowerCase d) ''test'' \<or> str_includes (toLowerCase d) ''validate'')
          \<longrightarrow> type r = ''ring'')"
  by (simp add: type_select_string)

text \<open>
  Two instances in which the scores alone chose otherwise: the mesh for the first
  description, the hierarchy for the second.
\<close>

theorem topology_special_patterns_witness:
  "str_includes (toLowerCase ''Collaborative research for the API'') ''api''
   \<and> fst (topology_loop ''Collaborative research for the API'') = ''mesh''
   \<and> (\<exists>r. selectOptimalTopology example_hook (JString ''Collaborative research for the API'')
            = Inr r
        \<and> type r = ''hierarchical'')
   \<and> \<not> str_includes (toLowerCase ''Validate the structured, organized plan'') ''api''
   \<and> \<not> str_includes (toLowerCase ''Validate the structured, organized plan'') ''service''
   \<and> str_includes (toLowerCase ''Validate the structured, organized plan'') ''validate''
   \<and> fst (topology_loop ''Validate the structured, organized plan'') = ''hierarchical''
   \<and> (\<exists>r. selectOptimalTopology example_hook
              (JString ''Validate the structured, organized plan'') = Inr r
        \<and> type r = ''ring'')"
proof -
  let ?a = "''Collaborative research for the API''"
  let ?b = "''Validate the structured, organized plan''"
  have a1: "str_includes (toLowerCase ?a) ''api''" by code_simp
  have a2: "fst (topology_loop ?a) = ''mesh''" by code_simp
  have b1: "\<not> str_includes (toLowerCase ?b) ''api''" by code_simp
  have b2: "\<not> str_includes (toLowerCase ?b) ''service''" by code_simp
  have b3: "str_includes (toLowerCase ?b) ''validate''" by code_simp
  have b4: "fst (topology_loop ?b) = ''hierarchical''" by code_simp
  from topology_special_patterns [of example_hook ?a] a1
  have ra: "\<exists>r. selectOptimalTopology example_hook (JString ?a) = Inr r
              \<and> type r = ''hierarchical''"
    by blast
  from topology_special_patterns [of example_hook ?b] b1 b2 b3
  have rb: "\<exists>r. selectOptimalTopology example_hook (JString ?b) = Inr r \<and> type r = ''ring''"
    by blast
  from a1 a2 ra b1 b2 b3 b4 rb show ?thesis by blast
qed

section \<open>The safety of a command\<close>

lemma safe_dangerous_step:
  "safe (dangerous_step c r d) = (safe r \<and> \<not> str_includes c d)"
  by (simp add: dangerous_step_def)

lemma safe_foldl_dangerous:
  "safe (foldl (dangerous_step c) r ds) = (safe r \<and> \<not> list_ex (str_includes c) ds)"
  by (induction ds arbitrary: r) (auto simp: safe_dangerous_step)

lemma safe_checks:
  "safe (check_elevated c r) = safe r" "safe (check_file_system c r) = safe r"
  "safe (check_network c r) = safe r" "safe (check_script c r) = safe r"
  "safe (check_paths env c r) = safe r"
  by (simp_all add: check_elevated_def check_file_system_def check_network_def
        check_script_def check_paths_def Let_def)

text \<open>A command is unsafe exactly when it contains one of the dangerous patterns.\<close>

lemma safe_validateCommandSafety:
  "safe (validateCommandSafety env c) \<longleftrightarrow> \<not> (\<exists>d \<in> set dangerousCommands. str_includes c d)"
  by (simp add: validateCommandSafety_def safe_checks safe_foldl_dangerous list_ex_iff)

lemma dangerous_nonempty: "d \<in> set dangerousCommands \<Longrightarrow> str_includes c d \<Longrightarrow> c \<noteq> []"
proof
  assume d: "d \<in> set dangerousCommands" and i: "str_includes c d" and c: "c = []"
  from i c have "d = []" by simp
  moreover have "[] \<notin> set dangerousCommands" by (simp add: dangerousCommands_def)
  ultimately show False using d by simp
qed

text \<open>
  With the safety validation enabled, \<^verbatim>\<open>execute\<close> blocks such a command: it returns the
  results with \<^verbatim>\<open>safe\<close> and \<^verbatim>\<open>continue\<close> false and the warnings of the validation, and it
  neither prepares resources, nor suggests optimizations, nor logs the intent.
\<close>

lemma execute_blocks_dangerous:
  assumes "validateSafety opts" and "command opts = Some c"
    and "d \<in> set dangerousCommands" and "str_includes c d"
  shows "\<exists>res trace. execute col opts = (Completed res, trace)
           \<and> \<not> r_safe res \<and> \<not> r_continue res
           \<and> r_warnings res = warnings (validateCommandSafety (environment col) c)
           \<and> PrepareCommandResources \<notin> set trace
           \<and> SuggestCommandOptimizations \<notin> set trace
           \<and> LogCommandIntent \<notin> set trace"
proof -
  from assms have ne: "c \<noteq> []" using dangerous_nonempty by blast
  from assms have unsafe: "\<not> safe (validateCommandSafety (environment col) c)"
    using safe_validateCommandSafety by blast
  from assms(1,2) ne unsafe show ?thesis
    by (simp add: execute_def Let_def nth_operation_def)
qed

text \<open>
  Claim C8. The claim asks for the risk level \<^verbatim>\<open>critical\<close> on every command that contains
  a dangerous pattern. The command \<^verbatim>\<open>sudo rm -rf /\<close> contains \<^verbatim>\<open>rm -rf\<close> and is unsafe, but
  the check for elevated privileges, which comes after the loop, overwrites the level
  with \<^verbatim>\<open>high\<close>; so does the check for a pipe into an interpreter on \<^verbatim>\<open>curl | bash\<close>, itself
  an entry of the list.
\<close>

theorem dangerous_command_risk_lowered:
  "''rm -rf'' \<in> set dangerousCommands \<and> str_includes ''sudo rm -rf /'' ''rm -rf''
   \<and> validateCommandSafety env ''sudo rm -rf /'' =
       \<lparr>safe = False,
        warnings = [''Dangerous command pattern detected: rm -rf'',
                    ''Command requires elevated privileges'',
                    ''Command performs file system operations''],
        riskLevel = ''high''\<rparr>
   \<and> ''curl | bash'' \<in> set dangerousCommands
   \<and> validateCommandSafety env ''curl | bash'' =
       \<lparr>safe = False,
        warnings = [''Dangerous command pattern detected: curl | bash'',
                    ''Command performs network operations'',
                    ''Command pipes to script interpreter''],
        riskLevel = ''high''\<rparr>"
proof -
  have "''rm -rf'' \<in> set dangerousCommands" "''curl | bash'' \<in> set dangerousCommands"
    by (simp_all add: dangerousCommands_def)
  moreover have "str_includes ''sudo rm -rf /'' ''rm -rf''" by code_simp
  moreover have "validateCommandSafety env ''sudo rm -rf /'' =
       \<lparr>safe = False,
        warnings = [''Dangerous command pattern detected: rm -rf'',
                    ''Command requires elevated privileges'',
                    ''Command performs file system operations''],
        riskLevel = ''high''\<rparr>"
    by code_simp
  moreover have "validateCommandSafety env ''curl | bash'' =
       \<lparr>safe = False,
        warnings = [''Dangerous command pattern detected: curl | bash'',
                    ''Command performs network operations'',
                    ''Command pipes to script interpreter''],
        riskLevel = ''high''\<rparr>"
    by code_simp
  ultimately show ?thesis by blast
qed

text \<open>The level of a command that contains a dangerous pattern is one of the two.\<close>

lemma riskLevel_dangerous_step:
  "str_includes c d \<Longrightarrow> riskLevel (dangerous_step c r d) = ''critical''"
  "\<not> str_includes c d \<Longrightarrow> dangerous_step c r d = r"
  by (simp_all add: dangerous_step_def)

lemma riskLevel_foldl_dangerous:
  "list_ex (str_includes c) ds \<or> riskLevel r = ''critical'' \<Longrightarrow>
     riskLevel (foldl (dangerous_step c) r ds) = ''critical''"
proof (induction ds arbitrary: r)
  case Nil
  then show ?case by simp
next
  case (Cons d ds)
  then show ?case
    by (cases "str_includes c d") (auto simp: riskLevel_dangerous_step)
qed

lemma riskLevel_checks:
  assumes "riskLevel r \<in> {''critical'', ''high''}"
  shows "riskLevel (check_elevated c r) \<in> {''critical'', ''high''}"
    and "riskLevel (check_file_system c r) \<in> {''critical'', ''high''}"
    and "riskLevel (check_network c r) \<in> {''critical'', ''high''}"
    and "riskLevel (check_script c r) \<in> {''critical'', ''high''}"
    and "riskLevel (check_paths env c r) \<in> {''critical'', ''high''}"
  using assms
  by (auto simp: check_elevated_def check_file_system_def check_network_def
        check_script_def check_paths_def Let_def)

lemma riskLevel_dangerous:
  assumes "d \<in> set dangerousCommands" and "str_includes c d"
  shows "riskLevel (validateCommandSafety env c) \<in> {''critical'', ''high''}"
proof -
  from assms have "list_ex (str_includes c) dangerousCommands"
    by (auto simp: list_ex_iff)
  then have "riskLevel (foldl (dangerous_step c)
      \<lparr>safe = True, warnings = [], riskLevel = ''low''\<rparr> dangerousCommands) = ''critical''"
    by (simp add: riskLevel_foldl_dangerous)
  then show ?thesis
    unfolding validateCommandSafety_def
    by (intro riskLevel_checks) simp
qed

text \<open>A dangerous command that meets none of the later checks keeps the level.\<close>

lemma dangerous_command_critical:
  "validateCommandSafety env ''mkfs /dev/sdb1'' =
     \<lparr>safe = False, warnings = [''Dangerous command pattern detected: mkfs''],
      riskLevel = ''critical''\<rparr>"
  by code_simp

section \<open>The hook manager\<close>

text \<open>A name that is neither registered nor inherited gets the unknown-hook answer.\<close>

lemma executeHook_unknown:
  "hookName \<notin> fst ` set (hooks mgr) \<Longrightarrow> hookName \<notin> set object_prototype_members \<Longrightarrow>
     executeHook mgr hookName opts =
       Inr (Failed \<lparr>success = False, error = Message (''Unknown hook: '' @ hookName)\<rparr>, [])"
proof -
  assume "hookName \<notin> fst ` set (hooks mgr)" and m: "hookName \<notin> set object_prototype_members"
  then have "map_of (hooks mgr) hookName = None" by (simp add: map_of_eq_None_iff)
  with m show ?thesis by (simp add: executeHook_def get_property_def)
qed

lemma catch_hook_error_failed:
  "e \<noteq> ThrownNullish \<Longrightarrow>
     \<exists>f ev. catch_hook_error hookName e = Inr (Failed f, ev) \<and> \<not> success f"
  by (cases e) (simp_all add: catch_hook_error_def)

text \<open>
  What a registered hook throws is caught and turned into a failure, unless the value
  thrown is \<^verbatim>\<open>null\<close> or \<^verbatim>\<open>undefined\<close>: then the \<^verbatim>\<open>catch\<close> block raises in its turn.
\<close>

lemma executeHook_raised:
  "map_of (hooks mgr) hookName = Some HookClass \<Longrightarrow> HookClass opts = Raised e \<Longrightarrow>
     e \<noteq> ThrownNullish \<Longrightarrow>
     \<exists>f ev. executeHook mgr hookName opts = Inr (Failed f, ev) \<and> \<not> success f"
proof -
  assume own: "map_of (hooks mgr) hookName = Some HookClass"
    and r: "HookClass opts = Raised e" and e: "e \<noteq> ThrownNullish"
  from own r have "executeHook mgr hookName opts = catch_hook_error hookName e"
    by (simp add: executeHook_def get_property_def)
  with catch_hook_error_failed [OF e] show ?thesis by simp
qed

lemma executeHook_raised_nullish:
  "map_of (hooks mgr) hookName = Some HookClass \<Longrightarrow> HookClass opts = Raised ThrownNullish \<Longrightarrow>
     executeHook mgr hookName opts = Inl TypeError"
  by (simp add: executeHook_def get_property_def catch_hook_error_def)

text \<open>
  Claim C9. The claim asks that a name which is not registered be answered with the error
  that names the unknown hook. The name \<^verbatim>\<open>constructor\<close> is not in the table the manager
  builds, yet the lookup finds the inherited member; the manager tries to run it, and
  answers with the message of the \<^verbatim>\<open>TypeError\<close> that follows, after logging it.
\<close>

theorem inherited_name_not_reported_unknown:
  "''constructor'' \<notin> fst ` set (hooks (new_HookManager pre_task post_task pre_command
                                          post_edit session_end sid))
   \<and> executeHook (new_HookManager pre_task post_task pre_command post_edit session_end sid)
       ''constructor'' opts =
       Inr (Failed \<lparr>success = False, error = TypeErrorMessage\<rparr>,
            [LogHookError ''constructor'' TypeErrorMessage])"
  by (simp add: executeHook_def get_property_def new_HookManager_def
        object_prototype_members_def catch_hook_error_def)

section \<open>The required tools\<close>

text \<open>
  Claim C7. Whatever the prompt, the matched patterns, the level and the roles, every
  always-on tool is among the required tools the resolver returns.
\<close>

theorem always_on_required:
  "set (alwaysOn cfg) \<subseteq> set (required (resolve cfg prompt matchedPatterns lvl roles))"
  by (auto simp: resolve_def Let_def)

theorem always_on_required_witness:
  "required (resolve example_config ''hi'' [] 1 []) = [''alwaysOnTool1'', ''alwaysOnTool2'']
   \<and> set [''alwaysOnTool2'', ''alwaysOnTool1'']
       \<subseteq> set (required (resolve example_config ''hi'' [] 1 []))"
proof -
  have "required (resolve example_config ''hi'' [] 1 []) = [''alwaysOnTool1'', ''alwaysOnTool2'']"
    by code_simp
  moreover have "alwaysOn example_config = [''alwaysOnTool2'', ''alwaysOnTool1'']"
    by (simp add: example_config_def)
  ultimately show ?thesis
    using always_on_required [of example_config "''hi''" "[]" 1 "[]"] by simp
qed

end
